theory Spec2Isabelle
  imports Main
begin

section \<open>JavaScript values\<close>

text \<open>
  The front end is JavaScript: a field of a JSON object, a React state variable or the
  wallet account may hold any scalar. The operations the pages use on such values are
  truthiness (\<open>!x\<close>, \<open>x || y\<close>, \<open>x && y\<close>), \<open>typeof x === 'string'\<close> and the conversion
  to a string made by a template literal or by \<open>FormData.append\<close>.

  A number \<open>JNum n\<close> stands for an integer that JavaScript holds exactly (below \<open>2^53\<close> in
  absolute value); JavaScript prints such a number in plain decimal, as \<open>js_string\<close> does.
  Fractions and larger numbers, which JavaScript prints in exponent form from \<open>10^21\<close> on,
  are outside this model.
\<close>

datatype jsval = JUndefined | JNull | JBool bool | JNum int | JStr string

fun truthy :: "jsval \<Rightarrow> bool" where
  "truthy JUndefined = False"
| "truthy JNull = False"
| "truthy (JBool b) = b"
| "truthy (JNum n) = (n \<noteq> 0)"
| "truthy (JStr s) = (s \<noteq> [])"

definition js_or :: "jsval \<Rightarrow> jsval \<Rightarrow> jsval" where
  "js_or a b = (if truthy a then a else b)"

fun is_string :: "jsval \<Rightarrow> bool" where
  "is_string (JStr s) = True"
| "is_string v = False"

definition digit_char :: "nat \<Rightarrow> char" where
  "digit_char d = char_of (48 + d)"

fun string_of_nat :: "nat \<Rightarrow> string" where
  "string_of_nat n =
     (if n < 10 then [digit_char n] else string_of_nat (n div 10) @ [digit_char (n mod 10)])"

definition string_of_int :: "int \<Rightarrow> string" where
  "string_of_int i = (if i < 0 then CHR ''-'' # string_of_nat (nat (- i)) else string_of_nat (nat i))"

fun js_string :: "jsval \<Rightarrow> string" where
  "js_string JUndefined = ''undefined''"
| "js_string JNull = ''null''"
| "js_string (JBool b) = (if b then ''true'' else ''false'')"
| "js_string (JNum n) = string_of_int n"
| "js_string (JStr s) = s"

section \<open>The injected wallet connector\<close>

text \<open>
  \<open>utils/connectors\<close> builds the connector with the chain ids it supports; the wallet
  library refuses to activate on a chain id the list does not include.
  \<open>connectWallet\<close> in the navigation bar asks the wallet to switch to the chain whose id
  is the hexadecimal literal \<open>0x60AE\<close> before it activates the connector.
\<close>

definition supportedChainIds :: "nat list" where
  "supportedChainIds = [24578, 1337]"

definition chain_supported :: "nat \<Rightarrow> bool" where
  "chain_supported c = (c \<in> set supportedChainIds)"

definition hex_digit :: "char \<Rightarrow> nat option" where
  "hex_digit c =
     (let n = of_char c :: nat in
      if 48 \<le> n \<and> n \<le> 57 then Some (n - 48)
      else if 65 \<le> n \<and> n \<le> 70 then Some (n - 55)
      else if 97 \<le> n \<and> n \<le> 102 then Some (n - 87)
      else None)"

fun hex_value :: "nat \<Rightarrow> string \<Rightarrow> nat option" where
  "hex_value acc [] = Some acc"
| "hex_value acc (c # cs) =
     (case hex_digit c of None \<Rightarrow> None | Some d \<Rightarrow> hex_value (16 * acc + d) cs)"

definition chain_id_of_hex :: "string \<Rightarrow> nat option" where
  "chain_id_of_hex s =
     (if take 2 s = ''0x'' \<and> drop 2 s \<noteq> [] then hex_value 0 (drop 2 s) else None)"

definition switch_chainId :: string where
  "switch_chainId = ''0x60AE''"

section \<open>The dashcam view\<close>

subsection \<open>What one call of uploadClip does\<close>

text \<open>
  \<open>uploadClip\<close> is a closure of the function component: the names \<open>account\<close>,
  \<open>sessionClips\<close>, \<open>sessionId\<close> and \<open>isRecording\<close> it reads are constants of the render
  in which the closure was made. \<open>render_scope\<close> holds these four bindings.
\<close>

record render_scope =
  sc_account :: jsval
  sc_sessionClips :: nat
  sc_sessionId :: jsval
  sc_isRecording :: bool

text \<open>
  The multipart form posted to \<open>/api/dashcam/upload\<close>, without the video blob and its
  file name. \<open>FormData.append\<close> stores every value as a string; the sequence number is
  kept as the number whose decimal text is sent.
\<close>

record upload_request =
  wallet_address :: string
  sequence_number :: nat
  session_id :: string
  is_first_chunk :: string
  is_last_chunk :: string

definition defaultAddress :: string where
  "defaultAddress = ''0x0000000000000000000000000000000000000000''"

definition form_data :: "jsval \<Rightarrow> render_scope \<Rightarrow> upload_request" where
  "form_data addr sc =
     \<lparr>wallet_address = js_string addr,
      sequence_number = sc_sessionClips sc,
      session_id = js_string (sc_sessionId sc),
      is_first_chunk = (if \<not> truthy (sc_sessionId sc) then ''true'' else ''false''),
      is_last_chunk = (if \<not> sc_isRecording sc then ''true'' else ''false'')\<rparr>"

text \<open>
  What \<open>axios.post\<close> gives back: the promise is rejected (network failure or an error
  status), or it resolves with a response whose \<open>data\<close> is missing, or with a \<open>data\<close>
  object whose \<open>session_id\<close> field has the given value (\<open>JUndefined\<close> when the object
  has no such field).
\<close>

datatype post_outcome = PostRejected | NoData | Data jsval

datatype js_exn = AxiosError | TypeError

text \<open>Awaiting the post and reading \<open>response.data.session_id\<close>.\<close>

fun response_session_id :: "post_outcome \<Rightarrow> js_exn + jsval" where
  "response_session_id PostRejected = Inl AxiosError"
| "response_session_id NoData = Inl TypeError"
| "response_session_id (Data v) = Inr v"

text \<open>
  The state updates and the notification a call makes. \<open>setSessionClips\<close> is called with
  an updater function, so it increments whatever the counter is when React applies it.
\<close>

datatype action = SetSessionId jsval | IncSessionClips | Toast string

definition on_response :: "render_scope \<Rightarrow> jsval \<Rightarrow> action list" where
  "on_response sc sid =
     (if truthy sid
      then (if \<not> truthy (sc_sessionId sc) then [SetSessionId sid] else []) @ [IncSessionClips]
      else [])"

text \<open>The body of the \<open>try\<close> block: the request that is posted, then the exception raised or the updates made.\<close>

definition uploadClip_try :: "render_scope \<Rightarrow> post_outcome \<Rightarrow> upload_request \<times> (js_exn + action list)" where
  "uploadClip_try sc r =
     (if \<not> truthy (sc_account sc)
      then (form_data (js_or (sc_account sc) (JStr defaultAddress)) sc,
            map_sum id (on_response sc) (response_session_id r))
      else (form_data (sc_account sc) sc,
            map_sum id (on_response sc) (response_session_id r)))"

text \<open>
  The whole function: the \<open>catch\<close> clause turns every exception of the body into the
  notification. \<open>Inl\<close> would be an exception that leaves \<open>uploadClip\<close>.
\<close>

definition uploadClip :: "render_scope \<Rightarrow> post_outcome \<Rightarrow> js_exn + (upload_request \<times> action list)" where
  "uploadClip sc r =
     (case uploadClip_try sc r of
        (req, Inl e) \<Rightarrow> Inr (req, [Toast ''Upload Failed''])
      | (req, Inr acts) \<Rightarrow> Inr (req, acts))"

subsection \<open>The component\<close>

text \<open>
  The component's state: the React state variables, the account of the wallet hook, the
  recorder held in \<open>mediaRecorderRef\<close>, and what has left the component (requests posted,
  notifications shown).

  The recorder is created by the effect whose dependency list is \<open>[cameraStream]\<close>. Its
  \<open>ondataavailable\<close> handler is assigned there and nowhere else, and it calls the
  \<open>uploadClip\<close> of the render in which the effect ran. A later render makes a new
  \<open>uploadClip\<close>, but the effect does not run again unless the camera stream changes, so
  the handler keeps calling the first one. \<open>d_recorder\<close> therefore holds, with the recorder,
  the scope of that render.
\<close>

record dashcam =
  d_isRecording :: bool
  d_recordingTime :: nat
  d_sessionClips :: nat
  d_sessionId :: jsval
  d_hasPermission :: bool
  d_cameraStream :: bool
  d_account :: jsval
  d_recorder :: "render_scope option"
  d_posted :: "upload_request list"
  d_toasts :: "string list"

definition mounted :: "jsval \<Rightarrow> dashcam" where
  "mounted acct =
     \<lparr>d_isRecording = False, d_recordingTime = 0, d_sessionClips = 0, d_sessionId = JNull,
      d_hasPermission = False, d_cameraStream = False, d_account = acct,
      d_recorder = None, d_posted = [], d_toasts = []\<rparr>"

definition scope_of :: "dashcam \<Rightarrow> render_scope" where
  "scope_of st =
     \<lparr>sc_account = d_account st, sc_sessionClips = d_sessionClips st,
      sc_sessionId = d_sessionId st, sc_isRecording = d_isRecording st\<rparr>"

fun apply_action :: "dashcam \<Rightarrow> action \<Rightarrow> dashcam" where
  "apply_action st (SetSessionId v) = st\<lparr>d_sessionId := v\<rparr>"
| "apply_action st IncSessionClips = st\<lparr>d_sessionClips := d_sessionClips st + 1\<rparr>"
| "apply_action st (Toast t) = st\<lparr>d_toasts := d_toasts st @ [t]\<rparr>"

text \<open>\<open>requestCameraPermission\<close>, with the answer of the browser.\<close>

definition requestCameraPermission :: "bool \<Rightarrow> dashcam \<Rightarrow> dashcam \<times> bool" where
  "requestCameraPermission granted st =
     (if granted then (st\<lparr>d_cameraStream := True, d_hasPermission := True\<rparr>, True)
      else (st\<lparr>d_toasts := d_toasts st @ [''Camera Permission Required'']\<rparr>, False))"

text \<open>
  The effect on \<open>[cameraStream]\<close>: with a stream and a MIME type the browser supports it
  creates the recorder and its handler; without a supported type it reports the error.
\<close>

definition recorder_effect :: "bool \<Rightarrow> dashcam \<Rightarrow> dashcam" where
  "recorder_effect mime_supported st =
     (if \<not> d_cameraStream st then st
      else if \<not> mime_supported then st\<lparr>d_toasts := d_toasts st @ [''Recording Error'']\<rparr>
      else st\<lparr>d_recorder := Some (scope_of st)\<rparr>)"

definition startRecording :: "bool \<Rightarrow> dashcam \<Rightarrow> dashcam" where
  "startRecording granted st =
     (let (st1, ok) = (if \<not> d_hasPermission st then requestCameraPermission granted st else (st, True))
      in if \<not> ok then st1
         else if d_recorder st1 = None then st1\<lparr>d_toasts := d_toasts st1 @ [''Camera Not Ready'']\<rparr>
         else st1\<lparr>d_sessionId := JNull, d_sessionClips := 0, d_recordingTime := 0, d_isRecording := True\<rparr>)"

definition stopRecording :: "dashcam \<Rightarrow> dashcam" where
  "stopRecording st = st\<lparr>d_isRecording := False, d_recordingTime := 0\<rparr>"

text \<open>The effect on \<open>[account, isRecording]\<close> only writes to the console.\<close>

definition wallet_effect :: "dashcam \<Rightarrow> dashcam" where
  "wallet_effect st = st"

definition set_account :: "jsval \<Rightarrow> dashcam \<Rightarrow> dashcam" where
  "set_account a st = wallet_effect (st\<lparr>d_account := a\<rparr>)"

text \<open>
  The recorder delivers a chunk of the given size, every 30 seconds while it records and
  once more when it is stopped: the handler uploads the chunk when it is not empty, with
  the \<open>uploadClip\<close> of the scope it was created in. The updates are applied to the
  current state of the component. The result is \<open>Inl\<close> when an exception leaves the
  handler.
\<close>

definition run_uploadClip :: "render_scope \<Rightarrow> post_outcome \<Rightarrow> dashcam \<Rightarrow> js_exn + dashcam" where
  "run_uploadClip sc r st =
     (case uploadClip sc r of
        Inl e \<Rightarrow> Inl e
      | Inr (req, acts) \<Rightarrow> Inr (foldl apply_action (st\<lparr>d_posted := d_posted st @ [req]\<rparr>) acts))"

definition ondataavailable :: "nat \<Rightarrow> post_outcome \<Rightarrow> dashcam \<Rightarrow> js_exn + dashcam" where
  "ondataavailable sz r st =
     (case d_recorder st of
        None \<Rightarrow> Inr st
      | Some sc \<Rightarrow> if sz > 0 then run_uploadClip sc r st else Inr st)"

text \<open>
  What happens to the component, in order: the browser answers the request for the
  camera made on mount, the effect on \<open>[cameraStream]\<close> runs, the user starts or stops
  the recording, the wallet hook reports another account, the recorder delivers a chunk
  and the server answers the upload. The effect on \<open>[isRecording]\<close>, which starts the
  recorder and the timer, changes none of the state kept here.
\<close>

datatype event =
    CameraPermission bool
  | RecorderEffect bool
  | Start bool
  | Stop
  | Account jsval
  | Chunk nat post_outcome

text \<open>The events that create the recorder anew.\<close>

definition is_recorder_effect :: "event \<Rightarrow> bool" where
  "is_recorder_effect e = (case e of RecorderEffect m \<Rightarrow> True | _ \<Rightarrow> False)"

fun step :: "dashcam \<Rightarrow> event \<Rightarrow> js_exn + dashcam" where
  "step st (CameraPermission g) = Inr (fst (requestCameraPermission g st))"
| "step st (RecorderEffect m) = Inr (recorder_effect m st)"
| "step st (Start g) = Inr (startRecording g st)"
| "step st Stop = Inr (stopRecording st)"
| "step st (Account a) = Inr (set_account a st)"
| "step st (Chunk n r) = ondataavailable n r st"

fun run :: "dashcam \<Rightarrow> event list \<Rightarrow> js_exn + dashcam" where
  "run st [] = Inr st"
| "run st (e # es) = (case step st e of Inl x \<Rightarrow> Inl x | Inr st' \<Rightarrow> run st' es)"

section \<open>The blockchain proof component\<close>

subsection \<open>Normalising one item\<close>

text \<open>
  An item is an object of a JSON reply (an NFT of the wallet, or the data of a verified
  transaction) or one of the built-in sample transactions. Only the fields that
  \<open>processTransactionData\<close> reads are kept; a field the object lacks is \<open>JUndefined\<close>.
\<close>

record item =
  i_image :: jsval
  i_cid :: jsval
  i_image_cid :: jsval
  i_metadata_uri :: jsval
  i_token_id :: jsval
  i_tokenId :: jsval
  i_tx_hash :: jsval
  i_txHash :: jsval
  i_block_number :: jsval
  i_blockNumber :: jsval
  i_timestamp :: jsval
  i_imageCid :: jsval
  i_metadataUri :: jsval
  i_owner :: jsval

definition no_fields :: item where
  "no_fields =
     \<lparr>i_image = JUndefined, i_cid = JUndefined, i_image_cid = JUndefined,
      i_metadata_uri = JUndefined, i_token_id = JUndefined, i_tokenId = JUndefined,
      i_tx_hash = JUndefined, i_txHash = JUndefined, i_block_number = JUndefined,
      i_blockNumber = JUndefined, i_timestamp = JUndefined, i_imageCid = JUndefined,
      i_metadataUri = JUndefined, i_owner = JUndefined\<rparr>"

record tx_view =
  v_tokenId :: jsval
  v_txHash :: jsval
  v_blockNumber :: jsval
  v_timestamp :: jsval
  v_imageCid :: jsval
  v_metadataUri :: jsval
  v_image :: jsval
  v_owner :: jsval

definition starts_with :: "string \<Rightarrow> string \<Rightarrow> bool" where
  "starts_with p s = (take (length p) s = p)"

text \<open>\<open>s.replace(p, r)\<close> with a string pattern replaces the first occurrence only.\<close>

fun replace_first :: "string \<Rightarrow> string \<Rightarrow> string \<Rightarrow> string" where
  "replace_first p r [] = (if p = [] then r else [])"
| "replace_first p r (c # cs) =
     (if starts_with p (c # cs) then r @ drop (length p) (c # cs)
      else c # replace_first p r cs)"

definition gateway :: string where
  "gateway = ''http://localhost:8080/ipfs/''"

definition placeholder :: string where
  "placeholder = ''https://via.placeholder.com/150?text=BlockSnap+NFT''"

text \<open>
  The value of \<open>imageUrl\<close> before the fallback. \<open>startsWith\<close> exists on strings only:
  calling it on a truthy value of another type raises a TypeError.
\<close>

definition image_url :: "item \<Rightarrow> js_exn + jsval" where
  "image_url it =
     (if truthy (i_image it) \<and> is_string (i_image it) then Inr (i_image it)
      else if truthy (js_or (i_cid it) (i_image_cid it))
      then Inr (JStr (gateway @ js_string (js_or (i_cid it) (i_image_cid it))))
      else if \<not> truthy (i_metadata_uri it) then Inr JNull
      else (case i_metadata_uri it of
              JStr u \<Rightarrow>
                if starts_with ''ipfs://'' u
                then Inr (JStr (gateway @ replace_first ''ipfs://'' [] u))
                else Inr JNull
            | _ \<Rightarrow> Inl TypeError))"

text \<open>
  The callback of \<open>data.map\<close>, for the connected account and the current time (the text
  of \<open>new Date().toISOString()\<close>).
\<close>

definition process_item :: "jsval \<Rightarrow> string \<Rightarrow> item \<Rightarrow> js_exn + tx_view" where
  "process_item account now it =
     (case image_url it of
        Inl e \<Rightarrow> Inl e
      | Inr u \<Rightarrow>
          Inr \<lparr>v_tokenId = js_or (js_or (i_token_id it) (i_tokenId it)) (JStr ''Unknown''),
               v_txHash = js_or (i_tx_hash it) (i_txHash it),
               v_blockNumber = js_or (js_or (i_block_number it) (i_blockNumber it)) (JNum 0),
               v_timestamp = js_or (i_timestamp it) (JStr now),
               v_imageCid = js_or (js_or (js_or (i_cid it) (i_image_cid it)) (i_imageCid it)) (JStr ''Unknown''),
               v_metadataUri = js_or (js_or (i_metadata_uri it) (i_metadataUri it)) (JStr ''Unknown''),
               v_image = (if \<not> truthy u then JStr placeholder else u),
               v_owner = js_or (js_or (i_owner it) account) (JStr ''Unknown'')\<rparr>)"

text \<open>
  \<open>processTransactionData\<close>: the list that \<open>setTransactions\<close> receives, or the exception
  of the first item that raises one. The statistics computed from the list are left out.
\<close>

fun processTransactionData :: "jsval \<Rightarrow> string \<Rightarrow> item list \<Rightarrow> js_exn + tx_view list" where
  "processTransactionData account now [] = Inr []"
| "processTransactionData account now (it # its) =
     (case process_item account now it of
        Inl e \<Rightarrow> Inl e
      | Inr v \<Rightarrow>
          (case processTransactionData account now its of
             Inl e \<Rightarrow> Inl e
           | Inr vs \<Rightarrow> Inr (v # vs)))"

text \<open>
  The image URL as the description of the page states it: the image string of the item
  if it has one, else the gateway URL of \<open>cid\<close> or \<open>image_cid\<close>, else the gateway URL of
  an \<open>ipfs://\<close> metadata URI, else the placeholder.
\<close>

definition claimed_image_url :: "item \<Rightarrow> jsval" where
  "claimed_image_url it =
     (if truthy (i_image it) \<and> is_string (i_image it) then i_image it
      else if truthy (i_cid it) then JStr (gateway @ js_string (i_cid it))
      else if truthy (i_image_cid it) then JStr (gateway @ js_string (i_image_cid it))
      else (case i_metadata_uri it of
              JStr u \<Rightarrow>
                if starts_with ''ipfs://'' u then JStr (gateway @ drop 7 u) else JStr placeholder
            | _ \<Rightarrow> JStr placeholder))"

text \<open>
  The items for which the call of \<open>startsWith\<close> cannot raise: an earlier branch gives the
  image URL, or \<open>metadata_uri\<close> is falsy, or it is a string.
\<close>

definition metadata_uri_guarded :: "item \<Rightarrow> bool" where
  "metadata_uri_guarded it =
     ((truthy (i_image it) \<and> is_string (i_image it)) \<or> truthy (i_cid it) \<or> truthy (i_image_cid it)
      \<or> \<not> truthy (i_metadata_uri it) \<or> is_string (i_metadata_uri it))"

subsection \<open>The built-in sample transactions\<close>

text \<open>
  The three timestamps are computed from the clock when the module is loaded; they are
  parameters here.
\<close>

definition mock_item :: "int \<Rightarrow> string \<Rightarrow> string \<Rightarrow> string \<Rightarrow> string \<Rightarrow> int \<Rightarrow> string \<Rightarrow> item" where
  "mock_item tid ts h cid uri blk img =
     no_fields\<lparr>i_tokenId := JNum tid, i_timestamp := JStr ts, i_txHash := JStr h,
               i_imageCid := JStr cid, i_metadataUri := JStr uri, i_blockNumber := JNum blk,
               i_image := JStr img\<rparr>"

definition mockTransactions :: "string \<Rightarrow> string \<Rightarrow> string \<Rightarrow> item list" where
  "mockTransactions t1 t2 t3 =
     [mock_item 1 t1 ''0x3a8e7f5b2e0c5d1a9b8f7e6d5c4b3a2e1d0c9b8a7f6e5d4c3b2a1e0d9c8b7a6f5''
        ''QmXyZ...'' ''ipfs://QmAbc...'' 12345678
        ''https://images.unsplash.com/photo-1579353977828-2a4eab540b9a?ixlib=rb-1.2.1&ixid=MnwxMjA3fDB8MHxzZWFyY2h8MXx8c2VjdXJpdHklMjBjYW1lcmF8ZW58MHx8MHx8&w=1000&q=80'',
      mock_item 2 t2 ''0x7f6e5d4c3b2a1e0d9c8b7a6f5e4d3c2b1a0e9d8c7b6a5f4e3d2c1b0a9e8d7f6e5''
        ''QmABC...'' ''ipfs://QmXyz...'' 12345679
        ''https://images.unsplash.com/photo-1566378246598-5b11a0d486cc?ixlib=rb-1.2.1&ixid=MnwxMjA3fDB8MHxzZWFyY2h8OXx8c2VjdXJpdHklMjBjYW1lcmF8ZW58MHx8MHx8&w=1000&q=80'',
      mock_item 3 t3 ''0xd4c3b2a1e0d9c8b7a6f5e4d3c2b1a0e9d8c7b6a5f4e3d2c1b0a9e8d7f6e5d4c3''
        ''QmDEF...'' ''ipfs://QmGhi...'' 12345680
        ''https://images.unsplash.com/photo-1580785692949-7b5a7ba2e3ee?ixlib=rb-1.2.1&ixid=MnwxMjA3fDB8MHxzZWFyY2h8MTJ8fHNlY3VyaXR5JTIwY2FtZXJhfGVufDB8fDB8fA%3D%3D&w=1000&q=80'']"

subsection \<open>Fetching the data\<close>

text \<open>
  A request either fails (the promise is rejected, or reading the reply raises) or gives a
  reply. The payload of a reply is \<open>None\<close> when the object or the field the code tests is
  missing.
\<close>

datatype 'a reply = Failed | Reply 'a

text \<open>
  The replies of the back end: the NFTs of the account, the hashes of the recent
  transactions, the \<open>tx_hash\<close> fields of the media results, and for a hash the data of
  \<open>/api/verify/tx\<close> with its \<open>exists_on_blockchain\<close> field.
\<close>

record backend =
  nfts :: "item list option reply"
  recent_transactions :: "jsval list option reply"
  query_media :: "jsval list option reply"
  verify_tx :: "jsval \<Rightarrow> (jsval \<times> item) option reply"

definition wallet_nfts :: "bool \<Rightarrow> jsval \<Rightarrow> backend \<Rightarrow> item list" where
  "wallet_nfts active account b =
     (if active \<and> truthy account
      then (case nfts b of Reply (Some l) \<Rightarrow> l | _ \<Rightarrow> [])
      else [])"

definition tx_hashes :: "backend \<Rightarrow> jsval list" where
  "tx_hashes b =
     (let recent = (case recent_transactions b of Reply (Some hs) \<Rightarrow> hs | _ \<Rightarrow> [])
      in if length recent = 0
         then (case query_media b of Reply (Some ms) \<Rightarrow> filter truthy ms | _ \<Rightarrow> [])
         else recent)"

fun verified :: "backend \<Rightarrow> jsval list \<Rightarrow> item list" where
  "verified b [] = []"
| "verified b (h # hs) =
     (case verify_tx b h of
        Reply (Some (ex, d)) \<Rightarrow> if truthy ex then d # verified b hs else verified b hs
      | _ \<Rightarrow> verified b hs)"

definition tx_details :: "backend \<Rightarrow> item list" where
  "tx_details b = verified b (take 5 (tx_hashes b))"

text \<open>
  Showing the sample data: \<open>processTransactionData(mockTransactions)\<close>, then the
  notification. The result of \<open>fetchData\<close> is the list given to \<open>setTransactions\<close> with
  the notifications shown, or the exception that leaves the function.
\<close>

definition sample_notice :: string where
  "sample_notice = ''Using sample data''"

definition use_mock :: "jsval \<Rightarrow> string \<Rightarrow> item list \<Rightarrow> js_exn + (tx_view list \<times> string list)" where
  "use_mock account now mock =
     (case processTransactionData account now mock of
        Inl e \<Rightarrow> Inl e
      | Inr vs \<Rightarrow> Inr (vs, [sample_notice]))"

text \<open>The inner \<open>try\<close> block (the branch taken without NFTs of the wallet) and its \<open>catch\<close>.\<close>

definition fetch_transactions :: "jsval \<Rightarrow> string \<Rightarrow> item list \<Rightarrow> backend \<Rightarrow> js_exn + (tx_view list \<times> string list)" where
  "fetch_transactions account now mock b =
     (let txDetails = tx_details b;
          attempt = (if length txDetails > 0
                     then map_sum id (\<lambda>vs. (vs, [])) (processTransactionData account now txDetails)
                     else use_mock account now mock)
      in case attempt of Inl e \<Rightarrow> use_mock account now mock | Inr res \<Rightarrow> Inr res)"

text \<open>The outer \<open>try\<close> block and its \<open>catch\<close>.\<close>

definition fetchData :: "bool \<Rightarrow> jsval \<Rightarrow> string \<Rightarrow> string \<Rightarrow> string \<Rightarrow> string \<Rightarrow> backend \<Rightarrow> js_exn + (tx_view list \<times> string list)" where
  "fetchData active account now t1 t2 t3 b =
     (let mock = mockTransactions t1 t2 t3;
          nftData = wallet_nfts active account b;
          attempt = (if length nftData > 0
                     then map_sum id (\<lambda>vs. (vs, [])) (processTransactionData account now nftData)
                     else fetch_transactions account now mock b)
      in case attempt of Inl e \<Rightarrow> use_mock account now mock | Inr res \<Rightarrow> Inr res)"

section \<open>The transaction resolver\<close>

text \<open>
  The resolver runs on the verification server, whose sources are not available. It is
  modelled from section 4.1 of the specification, one definition for each step described
  there.
\<close>

datatype media_type = photo | video_chunk | video_session | contract_interaction

text \<open>
  Modelled from the spec: the structured fields an event of the contract carries (token,
  chunk or session id, content id, owner).
\<close>

record event_fields =
  ev_id :: nat
  ev_content_id :: string
  ev_owner :: string

text \<open>
  Modelled from the spec: the events of the contract (minted photo, uploaded chunk,
  opened session); any other log entry has no known shape.
\<close>

datatype event_log =
    Minted event_fields
  | ChunkUploaded event_fields
  | SessionOpened event_fields
  | OtherLog

fun log_shape :: "event_log \<Rightarrow> (media_type \<times> event_fields) option" where
  "log_shape (Minted f) = Some (photo, f)"
| "log_shape (ChunkUploaded f) = Some (video_chunk, f)"
| "log_shape (SessionOpened f) = Some (video_session, f)"
| "log_shape OtherLog = None"

text \<open>
  Modelled from the spec: a transaction with its receipt, as the chain client returns
  them: the target address, the input data (bytes) and the logs emitted.
\<close>

record transaction =
  tx_to :: string
  tx_input :: "nat list"
  tx_logs :: "event_log list"

datatype client_error = TransactionNotFound

text \<open>
  Modelled from the spec: the chain client. Looking up a hash that is unknown to the
  chain raises \<open>TransactionNotFound\<close>.
\<close>

type_synonym chain_client = "string \<Rightarrow> client_error + transaction"

text \<open>Modelled from the spec: the selector is the leading four bytes of the input data.\<close>

definition selector :: "transaction \<Rightarrow> nat list" where
  "selector tx = take 4 (tx_input tx)"

text \<open>Modelled from the spec: the first log of the receipt that has a known shape.\<close>

fun known_log :: "event_log list \<Rightarrow> (media_type \<times> event_fields) option" where
  "known_log [] = None"
| "known_log (l # ls) = (case log_shape l of Some x \<Rightarrow> Some x | None \<Rightarrow> known_log ls)"

text \<open>
  Modelled from the spec: the classification. The selector is looked up in the fixed
  table of known selectors (the table itself is a parameter); without a match there the
  logs decide; without a known log either, the transaction is a contract interaction of
  unknown type.
\<close>

definition classify :: "(nat list \<times> media_type) list \<Rightarrow> transaction \<Rightarrow> media_type" where
  "classify table tx =
     (case map_of table (selector tx) of
        Some k \<Rightarrow> k
      | None \<Rightarrow> (case known_log (tx_logs tx) of Some (k, f) \<Rightarrow> k | None \<Rightarrow> contract_interaction))"

text \<open>
  Modelled from the spec: the verification result. The extracted fields always come
  from the logs.
\<close>

record verification_result =
  exists_on_blockchain :: bool
  classification :: "media_type option"
  extracted :: "event_fields option"

definition does_not_exist :: verification_result where
  "does_not_exist = \<lparr>exists_on_blockchain = False, classification = None, extracted = None\<rparr>"

text \<open>
  Modelled from the spec: the result "not found" for a transaction whose target is not
  the contract; it carries no classification either.
\<close>

definition not_found :: verification_result where
  "not_found = \<lparr>exists_on_blockchain = False, classification = None, extracted = None\<rparr>"

text \<open>
  Modelled from the spec: the resolver, for the table of selectors, the address of the
  contract, the chain client and a transaction hash. \<open>Inl\<close> would be an exception that
  leaves the resolver.
\<close>

definition resolve :: "(nat list \<times> media_type) list \<Rightarrow> string \<Rightarrow> chain_client \<Rightarrow> string \<Rightarrow> client_error + verification_result" where
  "resolve table contract client h =
     (case client h of
        Inl TransactionNotFound \<Rightarrow> Inr does_not_exist
      | Inr tx \<Rightarrow>
          if tx_to tx \<noteq> contract then Inr not_found
          else Inr \<lparr>exists_on_blockchain = True,
                    classification = Some (classify table tx),
                    extracted = map_option snd (known_log (tx_logs tx))\<rparr>)"

section \<open>The progressive block-range scanner\<close>

text \<open>
  The scanner also runs on the verification server and is modelled from section 4.2 of
  the specification.
\<close>










text \<open>Modelled from the spec: what the caller displays for a result.\<close>

datatype display = NoNFTsFound | ShowTokens "nat list" | ShowError







section \<open>Properties of the wallet connector\<close>

text \<open>
  Claim C10. The connector treats a chain id as supported exactly when it is 24578 or
  1337. The chain that \<open>connectWallet\<close> switches the wallet to, \<open>0x60AE\<close>, is 24750, and
  24750 is not a supported chain id.
\<close>

theorem supported_chain_ids:
  "(chain_supported c \<longleftrightarrow> c = 24578 \<or> c = 1337)
   \<and> chain_id_of_hex switch_chainId = Some 24750
   \<and> \<not> chain_supported 24750"
  by (auto simp: chain_supported_def supportedChainIds_def chain_id_of_hex_def
      switch_chainId_def hex_digit_def)

section \<open>Properties of the dashcam view\<close>

subsection \<open>One call of uploadClip\<close>

lemmas dashcam_defs = mounted_def requestCameraPermission_def recorder_effect_def scope_of_def
  startRecording_def stopRecording_def set_account_def wallet_effect_def ondataavailable_def
  run_uploadClip_def uploadClip_def uploadClip_try_def form_data_def on_response_def js_or_def

text \<open>No exception leaves \<open>uploadClip\<close>, whatever the scope and the outcome of the post.\<close>

lemma uploadClip_never_throws: "uploadClip sc r \<noteq> Inl e"
  by (simp add: uploadClip_def split: prod.splits sum.splits)

text \<open>
  The request a call posts is fixed by the scope alone: the address is the account of the
  scope, or the zero address when that account is falsy.
\<close>

lemma uploadClip_request:
  "\<exists>acts. uploadClip sc r =
     Inr (form_data (if truthy (sc_account sc) then sc_account sc else JStr defaultAddress) sc, acts)"
  by (auto simp: uploadClip_def uploadClip_try_def js_or_def split: prod.splits sum.splits)

lemma uploadClip_without_account:
  "\<not> truthy (sc_account sc) \<Longrightarrow>
   \<exists>req acts. uploadClip sc r = Inr (req, acts) \<and> wallet_address req = defaultAddress"
  using uploadClip_request [of sc r] by (auto simp: form_data_def)

subsection \<open>Runs of the component\<close>

lemma step_never_throws: "\<exists>st'. step st e = Inr st'"
proof (cases e)
  case (Chunk n r)
  show ?thesis
  proof (cases "d_recorder st")
    case None
    then show ?thesis using Chunk by (simp add: ondataavailable_def)
  next
    case (Some sc)
    obtain req acts where "uploadClip sc r = Inr (req, acts)"
      using uploadClip_request by blast
    then show ?thesis using Chunk Some
      by (simp add: ondataavailable_def run_uploadClip_def)
  qed
qed simp_all

lemma run_never_throws: "\<exists>st'. run st es = Inr st'"
proof (induction es arbitrary: st)
  case Nil
  then show ?case by simp
next
  case (Cons e es)
  obtain st1 where "step st e = Inr st1" using step_never_throws by blast
  then show ?case using Cons.IH [of st1] by simp
qed

lemma apply_actions_keep:
  "d_recorder (foldl apply_action st acts) = d_recorder st \<and>
   d_posted (foldl apply_action st acts) = d_posted st"
proof (induction acts arbitrary: st)
  case Nil
  then show ?case by simp
next
  case (Cons a acts)
  then show ?case by (cases a) simp_all
qed

text \<open>
  As long as the recorder is not created anew, an event leaves the handler's scope as it
  is, and the only request it can add is the one fixed by that scope.
\<close>

lemma step_handler_request:
  assumes "d_recorder st = Some sc" and "\<not> is_recorder_effect e" and "step st e = Inr st'"
  shows "d_recorder st' = Some sc \<and>
         (d_posted st' = d_posted st \<or>
          d_posted st' = d_posted st @
            [form_data (if truthy (sc_account sc) then sc_account sc else JStr defaultAddress) sc])"
proof (cases e)
  case (Chunk n r)
  obtain acts where "uploadClip sc r =
      Inr (form_data (if truthy (sc_account sc) then sc_account sc else JStr defaultAddress) sc, acts)"
    using uploadClip_request by blast
  then show ?thesis using assms Chunk
    by (auto simp: ondataavailable_def run_uploadClip_def apply_actions_keep split: if_splits)
next
  case (Start g)
  then show ?thesis using assms
    by (auto simp: startRecording_def requestCameraPermission_def split: if_splits)
qed (use assms in \<open>auto simp: is_recorder_effect_def requestCameraPermission_def
      stopRecording_def set_account_def wallet_effect_def split: if_splits\<close>)

text \<open>
  Every request of a recording is the same request: starting, stopping, a change of the
  account and the replies of the server change the state of the component, but not what
  the handler sends.
\<close>

lemma handler_requests_fixed:
  assumes "d_recorder st = Some sc" and "\<forall>e \<in> set es. \<not> is_recorder_effect e"
    and "run st es = Inr st'"
  shows "\<exists>k. d_posted st' = d_posted st @
           replicate k (form_data (if truthy (sc_account sc) then sc_account sc else JStr defaultAddress) sc)"
  using assms
proof (induction es arbitrary: st)
  case Nil
  then show ?case by (auto intro: exI [of _ 0])
next
  case (Cons e es)
  let ?q = "form_data (if truthy (sc_account sc) then sc_account sc else JStr defaultAddress) sc"
  obtain st1 where s1: "step st e = Inr st1" using step_never_throws by blast
  from step_handler_request [OF Cons.prems(1) _ s1] Cons.prems(2)
  have r1: "d_recorder st1 = Some sc"
    and p1: "d_posted st1 = d_posted st \<or> d_posted st1 = d_posted st @ [?q]"
    by auto
  from Cons.prems(3) s1 have "run st1 es = Inr st'" by simp
  from Cons.IH [OF r1 _ this] Cons.prems(2)
  obtain k where k: "d_posted st' = d_posted st1 @ replicate k ?q" by auto
  from p1 show ?case
  proof
    assume "d_posted st1 = d_posted st"
    with k show ?thesis by auto
  next
    assume "d_posted st1 = d_posted st @ [?q]"
    with k have "d_posted st' = d_posted st @ replicate (Suc k) ?q"
      by (simp add: replicate_append_same)
    then show ?thesis by blast
  qed
qed

text \<open>\<open>startRecording\<close>, once the camera is ready, clears the session id and the counter.\<close>

lemma startRecording_resets:
  "d_hasPermission st \<Longrightarrow> d_recorder st \<noteq> None \<Longrightarrow>
   d_sessionId (startRecording g st) = JNull \<and> d_sessionClips (startRecording g st) = 0
   \<and> d_isRecording (startRecording g st)"
  by (auto simp: startRecording_def)

subsection \<open>The claims about a recording\<close>

text \<open>
  Claim C1. An upload attempted while no wallet account is connected does not throw and
  uses the zero address as wallet address, and the recording goes on. The run below
  mounts the view with account \<open>0xA11CE\<close> connected, gets the camera, starts recording
  and then disconnects the wallet. The recording goes on and the next chunk is posted
  without an exception, but the handler still reads the account of the render that
  created the recorder: the request carries \<open>0xA11CE\<close>, not the zero address.
\<close>

theorem disconnected_upload_keeps_old_account:
  "map_sum id (\<lambda>st. (d_account st, d_isRecording st, map wallet_address (d_posted st)))
     (run (mounted (JStr ''0xA11CE''))
        [CameraPermission True, RecorderEffect True, Start True, Account JUndefined,
         Chunk 1 (Data (JStr ''S1''))])
   = Inr (JUndefined, True, [''0xA11CE''])"
  by (simp add: dashcam_defs)

text \<open>
  Claim C2. The chunks of a session are unique by sequence number and run from 0 to the
  number of chunks minus one. In the run below three chunks are uploaded and each reply
  carries the session id, so the counter of the component reaches 3; the three requests
  nevertheless all carry sequence number 0, the counter of the render that created the
  recorder.
\<close>

theorem accepted_chunks_repeat_sequence_number:
  "map_sum id (\<lambda>st. (map sequence_number (d_posted st), d_sessionClips st))
     (run (mounted (JStr ''0xA11CE''))
        [CameraPermission True, RecorderEffect True, Start True,
         Chunk 1 (Data (JStr ''S1'')), Chunk 1 (Data (JStr ''S1'')), Stop,
         Chunk 1 (Data (JStr ''S1''))])
   = Inr ([0, 0, 0], 3)"
  by (simp add: dashcam_defs)

text \<open>
  Claim C3. The chunk uploaded before a session id is assigned is tagged as first chunk
  and the later ones are not; a chunk uploaded while recording is not tagged as last
  chunk, the chunk flushed on stop is. In the run below the first two chunks are uploaded
  while recording and the third after the stop; the session id is assigned by the first
  reply. All three requests are tagged as first chunk and as last chunk (the pairs are
  \<open>is_first_chunk\<close>, \<open>is_last_chunk\<close>).
\<close>

theorem chunk_flags_of_first_render:
  "map_sum id (\<lambda>st. map (\<lambda>q. (is_first_chunk q, is_last_chunk q)) (d_posted st))
     (run (mounted (JStr ''0xA11CE''))
        [CameraPermission True, RecorderEffect True, Start True,
         Chunk 1 (Data (JStr ''S1'')), Chunk 1 (Data (JStr ''S1'')), Stop,
         Chunk 1 (Data (JStr ''S1''))])
   = Inr [(''true'', ''true''), (''true'', ''true''), (''true'', ''true'')]"
  by (simp add: dashcam_defs)

text \<open>
  Claim C4. After the first reply with a session id, every later upload of the recording
  carries that id, and later replies do not overwrite the stored id. In the run below the
  first reply assigns \<open>S1\<close>; the second request still carries the text \<open>null\<close> as session
  id, and the second reply, with \<open>S2\<close>, replaces the stored id.
\<close>

theorem session_id_not_threaded:
  "map_sum id (\<lambda>st. (map session_id (d_posted st), d_sessionId st))
     (run (mounted (JStr ''0xA11CE''))
        [CameraPermission True, RecorderEffect True, Start True,
         Chunk 1 (Data (JStr ''S1'')), Chunk 1 (Data (JStr ''S2''))])
   = Inr ([''null'', ''null''], JStr ''S2'')"
  by (simp add: dashcam_defs)

text \<open>
  Claim C5. When the upload of a chunk fails, \<open>uploadClip\<close> posts no second request for
  it and does not pass the error on: the handler returns normally, one request has been
  posted, the notification \<open>Upload Failed\<close> has been added, and nothing else in the
  component has changed (in particular not the clip counter).
\<close>

theorem failed_upload_only_notifies:
  assumes "d_recorder st = Some sc" and "0 < sz" and "response_session_id r = Inl e"
  shows "uploadClip sc r =
           Inr (form_data (if truthy (sc_account sc) then sc_account sc else JStr defaultAddress) sc,
                [Toast ''Upload Failed''])
         \<and> ondataavailable sz r st =
           Inr (st\<lparr>d_posted := d_posted st @
                      [form_data (if truthy (sc_account sc) then sc_account sc else JStr defaultAddress) sc],
                    d_toasts := d_toasts st @ [''Upload Failed'']\<rparr>)"
  using assms
  by (simp add: ondataavailable_def run_uploadClip_def uploadClip_def uploadClip_try_def js_or_def)

theorem failed_upload_only_notifies_witness:
  "ondataavailable 1 PostRejected
     ((mounted JNull)\<lparr>d_recorder := Some (scope_of (mounted JNull)), d_sessionClips := 2\<rparr>)
   = Inr ((mounted JNull)\<lparr>d_recorder := Some (scope_of (mounted JNull)), d_sessionClips := 2,
            d_posted := [\<lparr>wallet_address = defaultAddress, sequence_number = 0, session_id = ''null'',
                          is_first_chunk = ''true'', is_last_chunk = ''true''\<rparr>],
            d_toasts := [''Upload Failed'']\<rparr>)"
  using failed_upload_only_notifies
    [of "(mounted JNull)\<lparr>d_recorder := Some (scope_of (mounted JNull)), d_sessionClips := 2\<rparr>"
      "scope_of (mounted JNull)" 1 PostRejected AxiosError]
  by (simp add: mounted_def scope_of_def form_data_def)

section \<open>Properties of the blockchain proof component\<close>

lemma replace_ipfs_prefix:
  "starts_with ''ipfs://'' u \<Longrightarrow> replace_first ''ipfs://'' [] u = drop 7 u"
  by (cases u) (auto simp: starts_with_def eval_nat_numeral)

lemma not_starts_with_empty: "\<not> starts_with ''ipfs://'' []"
  by (simp add: starts_with_def)

lemma url_parts_nonempty: "gateway \<noteq> []" "placeholder \<noteq> []"
  by (simp_all add: gateway_def placeholder_def)

lemma claimed_image_url_string: "\<exists>s. claimed_image_url it = JStr s \<and> s \<noteq> []"
  by (cases "i_image it"; cases "i_metadata_uri it")
    (auto simp: claimed_image_url_def gateway_def placeholder_def)

lemma claimed_image_url_truthy: "truthy (claimed_image_url it)"
  using claimed_image_url_string [of it] by auto

text \<open>The callback raises exactly for the items that reach the unguarded call.\<close>

lemma image_url_raises: "(\<exists>e. image_url it = Inl e) \<longleftrightarrow> \<not> metadata_uri_guarded it"
  by (cases "i_metadata_uri it") (auto simp: image_url_def metadata_uri_guarded_def js_or_def)

lemma process_item_image:
  assumes "metadata_uri_guarded it"
  shows "\<exists>v. process_item account now it = Inr v \<and> v_image v = claimed_image_url it"
proof (cases "i_metadata_uri it")
  case (JStr u)
  show ?thesis
  proof (cases "starts_with ''ipfs://'' u")
    case True
    then have "u \<noteq> []" using not_starts_with_empty by auto
    then show ?thesis using JStr True
      by (simp add: process_item_def image_url_def claimed_image_url_def js_or_def
          replace_ipfs_prefix url_parts_nonempty)
  next
    case False
    then show ?thesis using JStr
      by (simp add: process_item_def image_url_def claimed_image_url_def js_or_def
          url_parts_nonempty)
  qed
next
  case (JBool b)
  have "image_url it = Inr (claimed_image_url it)
        \<or> (image_url it = Inr JNull \<and> claimed_image_url it = JStr placeholder)"
    using assms JBool
    by (simp add: metadata_uri_guarded_def image_url_def claimed_image_url_def js_or_def) blast
  then show ?thesis
    by (auto simp: process_item_def url_parts_nonempty claimed_image_url_truthy)
next
  case (JNum k)
  have "image_url it = Inr (claimed_image_url it)
        \<or> (image_url it = Inr JNull \<and> claimed_image_url it = JStr placeholder)"
    using assms JNum
    by (simp add: metadata_uri_guarded_def image_url_def claimed_image_url_def js_or_def) blast
  then show ?thesis
    by (auto simp: process_item_def url_parts_nonempty claimed_image_url_truthy)
qed (simp_all add: process_item_def image_url_def claimed_image_url_def js_or_def url_parts_nonempty)

lemma process_item_defaults:
  assumes "process_item account now it = Inr v"
  shows "truthy (v_tokenId v) \<and> truthy (v_imageCid v) \<and> truthy (v_metadataUri v)
    \<and> truthy (v_image v)
    \<and> (\<not> truthy (i_token_id it) \<and> \<not> truthy (i_tokenId it) \<longrightarrow> v_tokenId v = JStr ''Unknown'')
    \<and> (\<not> truthy (i_cid it) \<and> \<not> truthy (i_image_cid it) \<and> \<not> truthy (i_imageCid it)
          \<longrightarrow> v_imageCid v = JStr ''Unknown'')
    \<and> (\<not> truthy (i_metadata_uri it) \<and> \<not> truthy (i_metadataUri it)
          \<longrightarrow> v_metadataUri v = JStr ''Unknown'')"
proof -
  obtain u where u: "image_url it = Inr u" using assms
    by (cases "image_url it") (simp_all add: process_item_def)
  have f: "v_tokenId v = js_or (js_or (i_token_id it) (i_tokenId it)) (JStr ''Unknown'')"
    "v_imageCid v = js_or (js_or (js_or (i_cid it) (i_image_cid it)) (i_imageCid it)) (JStr ''Unknown'')"
    "v_metadataUri v = js_or (js_or (i_metadata_uri it) (i_metadataUri it)) (JStr ''Unknown'')"
    "v_image v = (if \<not> truthy u then JStr placeholder else u)"
    using assms u by (auto simp: process_item_def)
  have "truthy (v_image v)" by (simp add: f(4) url_parts_nonempty)
  moreover have "truthy (v_tokenId v)" by (simp add: f(1) js_or_def)
  moreover have "truthy (v_imageCid v)" by (simp add: f(2) js_or_def)
  moreover have "truthy (v_metadataUri v)" by (simp add: f(3) js_or_def)
  moreover have "\<not> truthy (i_token_id it) \<and> \<not> truthy (i_tokenId it)
      \<longrightarrow> v_tokenId v = JStr ''Unknown''"
    by (simp add: f(1) js_or_def)
  moreover have "\<not> truthy (i_cid it) \<and> \<not> truthy (i_image_cid it) \<and> \<not> truthy (i_imageCid it)
      \<longrightarrow> v_imageCid v = JStr ''Unknown''"
    by (simp add: f(2) js_or_def)
  moreover have "\<not> truthy (i_metadata_uri it) \<and> \<not> truthy (i_metadataUri it)
      \<longrightarrow> v_metadataUri v = JStr ''Unknown''"
    by (simp add: f(3) js_or_def)
  ultimately show ?thesis by blast
qed

text \<open>
  What holds of the claim: when no item of the list reaches the unguarded call,
  \<open>processTransactionData\<close> produces one record for each item, with the image URL as
  described and with truthy (so neither null nor undefined) image, token id, image CID and
  metadata URI.
\<close>

lemma processed_items:
  assumes "\<forall>it \<in> set its. metadata_uri_guarded it"
  shows "\<exists>vs. processTransactionData account now its = Inr vs
           \<and> map v_image vs = map claimed_image_url its
           \<and> (\<forall>v \<in> set vs. truthy (v_image v) \<and> truthy (v_tokenId v)
                 \<and> truthy (v_imageCid v) \<and> truthy (v_metadataUri v))"
  using assms
proof (induction its)
  case Nil
  then show ?case by simp
next
  case (Cons it its)
  obtain v where v: "process_item account now it = Inr v" "v_image v = claimed_image_url it"
    using process_item_image [of it account now] Cons.prems by auto
  obtain vs where vs: "processTransactionData account now its = Inr vs"
    "map v_image vs = map claimed_image_url its"
    "\<forall>v \<in> set vs. truthy (v_image v) \<and> truthy (v_tokenId v)
        \<and> truthy (v_imageCid v) \<and> truthy (v_metadataUri v)"
    using Cons by auto
  show ?case using v vs process_item_defaults [OF v(1)] by simp
qed


lemma verified_empty:
  "(\<forall>h \<in> set hs. \<forall>ex d. verify_tx b h = Reply (Some (ex, d)) \<longrightarrow> \<not> truthy ex) \<Longrightarrow>
   verified b hs = []"
  by (induction hs) (auto split: reply.splits option.splits)

text \<open>
  Claim C8. Whenever the query for the NFTs of the wallet yields none, and none of the
  hashes queried (at most five) has a reply whose \<open>exists_on_blockchain\<close> is truthy, the
  page holds the three built-in sample transactions, with the token ids 1, 2 and 3 and
  the images, hashes, CIDs, metadata URIs and block numbers of the samples, and it shows
  the notification \<open>Using sample data\<close>.
\<close>

theorem sample_data_shown:
  assumes "wallet_nfts active account b = []"
    and "\<forall>h \<in> set (take 5 (tx_hashes b)).
           \<forall>ex d. verify_tx b h = Reply (Some (ex, d)) \<longrightarrow> \<not> truthy ex"
  shows "\<exists>vs. fetchData active account now t1 t2 t3 b = Inr (vs, [''Using sample data''])
           \<and> length vs = 3
           \<and> map v_tokenId vs = [JNum 1, JNum 2, JNum 3]
           \<and> map v_image vs = map i_image (mockTransactions t1 t2 t3)
           \<and> map v_txHash vs = map i_txHash (mockTransactions t1 t2 t3)
           \<and> map v_imageCid vs = map i_imageCid (mockTransactions t1 t2 t3)
           \<and> map v_metadataUri vs = map i_metadataUri (mockTransactions t1 t2 t3)
           \<and> map v_blockNumber vs = map i_blockNumber (mockTransactions t1 t2 t3)"
proof -
  have d: "tx_details b = []"
    using verified_empty [OF assms(2)] by (simp add: tx_details_def)
  show ?thesis
    using assms(1) d
    by (simp add: fetchData_def fetch_transactions_def use_mock_def sample_notice_def
        mockTransactions_def mock_item_def no_fields_def process_item_def image_url_def js_or_def)
qed

theorem sample_data_shown_witness:
  "\<exists>vs. fetchData True (JStr ''0xA11CE'') ''2025-01-01T00:00:00.000Z'' ''t1'' ''t2'' ''t3''
           \<lparr>nfts = Reply (Some []), recent_transactions = Failed,
            query_media = Reply (Some [JStr ''0xabc'', JNull]),
            verify_tx = (\<lambda>h. Reply (Some (JBool False, no_fields)))\<rparr>
         = Inr (vs, [''Using sample data''])
      \<and> length vs = 3
      \<and> map v_tokenId vs = [JNum 1, JNum 2, JNum 3]
      \<and> map v_image vs = map i_image (mockTransactions ''t1'' ''t2'' ''t3'')
      \<and> map v_txHash vs = map i_txHash (mockTransactions ''t1'' ''t2'' ''t3'')
      \<and> map v_imageCid vs = map i_imageCid (mockTransactions ''t1'' ''t2'' ''t3'')
      \<and> map v_metadataUri vs = map i_metadataUri (mockTransactions ''t1'' ''t2'' ''t3'')
      \<and> map v_blockNumber vs = map i_blockNumber (mockTransactions ''t1'' ''t2'' ''t3'')"
proof -
  have "wallet_nfts True (JStr ''0xA11CE'')
          \<lparr>nfts = Reply (Some []), recent_transactions = Failed,
           query_media = Reply (Some [JStr ''0xabc'', JNull]),
           verify_tx = (\<lambda>h. Reply (Some (JBool False, no_fields)))\<rparr> = []"
    by (simp add: wallet_nfts_def)
  moreover have "\<forall>h \<in> set (take 5 (tx_hashes
          \<lparr>nfts = Reply (Some []), recent_transactions = Failed,
           query_media = Reply (Some [JStr ''0xabc'', JNull]),
           verify_tx = (\<lambda>h. Reply (Some (JBool False, no_fields)))\<rparr>)).
        \<forall>ex d. verify_tx
          \<lparr>nfts = Reply (Some []), recent_transactions = Failed,
           query_media = Reply (Some [JStr ''0xabc'', JNull]),
           verify_tx = (\<lambda>h. Reply (Some (JBool False, no_fields)))\<rparr> h = Reply (Some (ex, d))
          \<longrightarrow> \<not> truthy ex"
    by (simp add: tx_hashes_def)
  ultimately show ?thesis by (rule sample_data_shown)
qed

section \<open>Properties of the transaction resolver\<close>

text \<open>
  Claim C6. For a hash that is not on the chain the resolver returns a result, not an
  exception, with \<open>exists_on_blockchain\<close> false and without classification. For a
  transaction on the chain that is addressed to the contract it returns a result that
  exists and is classified, and the classification is "contract interaction" when the
  selector is not in the table and no log has a known shape. In no case does an exception
  leave the resolver.
\<close>

theorem resolver_results:
  "(client h = Inl TransactionNotFound \<longrightarrow>
      (\<exists>r. resolve table contract client h = Inr r
         \<and> \<not> exists_on_blockchain r \<and> classification r = None))
   \<and> (\<forall>tx. client h = Inr tx \<and> tx_to tx = contract \<longrightarrow>
        (\<exists>r k. resolve table contract client h = Inr r
           \<and> exists_on_blockchain r \<and> classification r = Some k
           \<and> (map_of table (selector tx) = None \<and> known_log (tx_logs tx) = None
                \<longrightarrow> k = contract_interaction)))
   \<and> (\<exists>r. resolve table contract client h = Inr r)"
  by (cases "client h")
    (auto simp: resolve_def does_not_exist_def not_found_def classify_def split: client_error.splits)

theorem resolver_results_witness:
  "(\<exists>r. resolve [([64, 193, 15, 25], photo)] ''0xC''
          (\<lambda>h. if h = ''0x01''
                then Inr \<lparr>tx_to = ''0xC'', tx_input = [1, 2, 3, 4, 5], tx_logs = [OtherLog]\<rparr>
                else Inl TransactionNotFound) ''0x02'' = Inr r
       \<and> \<not> exists_on_blockchain r \<and> classification r = None)
   \<and> (\<exists>r. resolve [([64, 193, 15, 25], photo)] ''0xC''
          (\<lambda>h. if h = ''0x01''
                then Inr \<lparr>tx_to = ''0xC'', tx_input = [1, 2, 3, 4, 5], tx_logs = [OtherLog]\<rparr>
                else Inl TransactionNotFound) ''0x01'' = Inr r
       \<and> exists_on_blockchain r \<and> classification r = Some contract_interaction)"
  using resolver_results
    [of "(\<lambda>h. if h = ''0x01''
                then Inr \<lparr>tx_to = ''0xC'', tx_input = [1, 2, 3, 4, 5], tx_logs = [OtherLog]\<rparr>
                else Inl TransactionNotFound)" "''0x02''" "[([64, 193, 15, 25], photo)]" "''0xC''"]
    resolver_results
    [of "(\<lambda>h. if h = ''0x01''
                then Inr \<lparr>tx_to = ''0xC'', tx_input = [1, 2, 3, 4, 5], tx_logs = [OtherLog]\<rparr>
                else Inl TransactionNotFound)" "''0x01''" "[([64, 193, 15, 25], photo)]" "''0xC''"]
  by (auto simp: selector_def)

section \<open>Properties of the block-range scanner\<close>








end
